theory Spec2Isabelle
  imports Main "HOL-Library.Sublist"
begin

section \<open>Python text\<close>

text \<open>
  The script \<^verbatim>\<open>scripts/generate-temporal-data.py\<close> works on Python \<^verbatim>\<open>str\<close> values that
  it obtains by decoding the output of \<^verbatim>\<open>git\<close>. A \<^verbatim>\<open>str\<close> is modelled by the bytes of its
  UTF-8 encoding, a \<^typ>\<open>string\<close>: \<^verbatim>\<open>len(s.encode())\<close> is then \<^term>\<open>length s\<close>, decoding is a
  validity check, and every delimiter the script looks for (\<^verbatim>\<open>|\<close>, newline, tab, the
  characters of its two regular expressions) is an ASCII byte, which never occurs inside
  the encoding of another code point. The locale encoding is taken to be UTF-8.
\<close>

datatype py_error = OSError | UnicodeDecodeError | ValueError

text \<open>\<^verbatim>\<open>s.startswith(p)\<close>.\<close>

definition startswith :: "string \<Rightarrow> string \<Rightarrow> bool" where
  "startswith s p = prefix p s"

text \<open>\<^verbatim>\<open>s.split(sep)\<close> for a separator of one character.\<close>

fun split_chr :: "char \<Rightarrow> string \<Rightarrow> string list" where
  "split_chr sep [] = [[]]"
| "split_chr sep (c # cs) =
     (if c = sep then [] # split_chr sep cs
      else (case split_chr sep cs of
              [] \<Rightarrow> [[c]]
            | p # ps \<Rightarrow> (c # p) # ps))"

text \<open>\<^verbatim>\<open>s.split(sep, maxsplit)\<close>: at most \<open>maxsplit\<close> cuts, the rest is the last field.\<close>

fun split_chr_max :: "char \<Rightarrow> nat \<Rightarrow> string \<Rightarrow> string list" where
  "split_chr_max sep 0 s = [s]"
| "split_chr_max sep (Suc n) [] = [[]]"
| "split_chr_max sep (Suc n) (c # cs) =
     (if c = sep then [] # split_chr_max sep n cs
      else (case split_chr_max sep (Suc n) cs of
              [] \<Rightarrow> [[c]]
            | p # ps \<Rightarrow> (c # p) # ps))"

text \<open>
  The length in bytes of the well-formed UTF-8 encoding of one code point at the head of
  a byte string, 0 when there is none; a byte string decodes when it is a sequence of
  such encodings (\<^verbatim>\<open>errors='strict'\<close>).
\<close>

definition continuation :: "char \<Rightarrow> bool" where
  "continuation b = (0x80 \<le> (of_char b :: nat) \<and> (of_char b :: nat) \<le> 0xBF)"

definition between :: "nat \<Rightarrow> nat \<Rightarrow> char \<Rightarrow> bool" where
  "between lo hi b = (lo \<le> (of_char b :: nat) \<and> (of_char b :: nat) \<le> hi)"

fun utf8_head :: "string \<Rightarrow> nat" where
  "utf8_head [] = 0"
| "utf8_head [a] = (if (of_char a :: nat) < 0x80 then 1 else 0)"
| "utf8_head [a, b] =
     (if (of_char a :: nat) < 0x80 then 1
      else if between 0xC2 0xDF a \<and> continuation b then 2 else 0)"
| "utf8_head [a, b, c] =
     (if (of_char a :: nat) < 0x80 then 1
      else if between 0xC2 0xDF a \<and> continuation b then 2
      else if (of_char a :: nat) = 0xE0 \<and> between 0xA0 0xBF b \<and> continuation c then 3
      else if between 0xE1 0xEC a \<and> continuation b \<and> continuation c then 3
      else if (of_char a :: nat) = 0xED \<and> between 0x80 0x9F b \<and> continuation c then 3
      else if between 0xEE 0xEF a \<and> continuation b \<and> continuation c then 3
      else 0)"
| "utf8_head (a # b # c # d # rest) =
     (if (of_char a :: nat) < 0x80 then 1
      else if between 0xC2 0xDF a \<and> continuation b then 2
      else if (of_char a :: nat) = 0xE0 \<and> between 0xA0 0xBF b \<and> continuation c then 3
      else if between 0xE1 0xEC a \<and> continuation b \<and> continuation c then 3
      else if (of_char a :: nat) = 0xED \<and> between 0x80 0x9F b \<and> continuation c then 3
      else if between 0xEE 0xEF a \<and> continuation b \<and> continuation c then 3
      else if (of_char a :: nat) = 0xF0 \<and> between 0x90 0xBF b \<and> continuation c
              \<and> continuation d then 4
      else if between 0xF1 0xF3 a \<and> continuation b \<and> continuation c \<and> continuation d then 4
      else if (of_char a :: nat) = 0xF4 \<and> between 0x80 0x8F b \<and> continuation c
              \<and> continuation d then 4
      else 0)"

function utf8_valid :: "string \<Rightarrow> bool" where
  "utf8_valid s =
     (if s = [] then True
      else if utf8_head s = 0 then False
      else utf8_valid (drop (utf8_head s) s))"
  by pat_completeness auto
termination
  by (relation "measure length") auto

declare utf8_valid.simps [simp del]

text \<open>
  \<^verbatim>\<open>text=True\<close> reads the output with universal newlines: \<^verbatim>\<open>\r\n\<close> and a lone \<^verbatim>\<open>\r\<close>
  both become \<^verbatim>\<open>\n\<close>.
\<close>

fun universal_newlines :: "string \<Rightarrow> string" where
  "universal_newlines [] = []"
| "universal_newlines [c] = [if c = CHR 0x0D then CHR 0x0A else c]"
| "universal_newlines (c # d # ds) =
     (if c = CHR 0x0D \<and> d = CHR 0x0A then CHR 0x0A # universal_newlines ds
      else if c = CHR 0x0D then CHR 0x0A # universal_newlines (d # ds)
      else c # universal_newlines (d # ds))"

text \<open>
  The code points for which \<^verbatim>\<open>str.isspace\<close> holds, each as its UTF-8 bytes: the ASCII
  ones (\<^verbatim>\<open>\t \n \v \f \r\<close>, 0x1C to 0x1F, space), then U+0085, U+00A0, U+1680, U+2000
  to U+200A, U+2028, U+2029, U+202F, U+205F and U+3000. \<^verbatim>\<open>strip()\<close> and \<^verbatim>\<open>split()\<close>
  with no argument cut at these.
\<close>

definition whitespace :: "string list" where
  "whitespace =
     [[CHR 0x09], [CHR 0x0A], [CHR 0x0B], [CHR 0x0C], [CHR 0x0D],
      [CHR 0x1C], [CHR 0x1D], [CHR 0x1E], [CHR 0x1F], [CHR 0x20],
      [CHR 0xC2, CHR 0x85], [CHR 0xC2, CHR 0xA0], [CHR 0xE1, CHR 0x9A, CHR 0x80],
      [CHR 0xE2, CHR 0x80, CHR 0x80], [CHR 0xE2, CHR 0x80, CHR 0x81],
      [CHR 0xE2, CHR 0x80, CHR 0x82], [CHR 0xE2, CHR 0x80, CHR 0x83],
      [CHR 0xE2, CHR 0x80, CHR 0x84], [CHR 0xE2, CHR 0x80, CHR 0x85],
      [CHR 0xE2, CHR 0x80, CHR 0x86], [CHR 0xE2, CHR 0x80, CHR 0x87],
      [CHR 0xE2, CHR 0x80, CHR 0x88], [CHR 0xE2, CHR 0x80, CHR 0x89],
      [CHR 0xE2, CHR 0x80, CHR 0x8A], [CHR 0xE2, CHR 0x80, CHR 0xA8],
      [CHR 0xE2, CHR 0x80, CHR 0xA9], [CHR 0xE2, CHR 0x80, CHR 0xAF],
      [CHR 0xE2, CHR 0x81, CHR 0x9F], [CHR 0xE3, CHR 0x80, CHR 0x80]]"

text \<open>The length of the first of \<open>seqs\<close> that the string starts with, 0 when none does.\<close>

definition lead_len :: "string list \<Rightarrow> string \<Rightarrow> nat" where
  "lead_len seqs s =
     (case find (\<lambda>p. p \<noteq> [] \<and> prefix p s) seqs of
        None \<Rightarrow> 0
      | Some p \<Rightarrow> length p)"

function drop_leading :: "string list \<Rightarrow> string \<Rightarrow> string" where
  "drop_leading seqs s =
     (if lead_len seqs s = 0 then s
      else drop_leading seqs (drop (lead_len seqs s) s))"
  by pat_completeness auto
termination
proof (relation "measure (\<lambda>(seqs, s). length s)")
  show "wf (measure (\<lambda>(seqs, s). length s))" by simp
next
  fix seqs :: "string list" and s :: string
  assume n: "lead_len seqs s \<noteq> 0"
  then obtain p where "find (\<lambda>p. p \<noteq> [] \<and> prefix p s) seqs = Some p"
    by (auto simp: lead_len_def split: option.splits)
  then have "p \<noteq> [] \<and> prefix p s"
    by (auto simp: find_Some_iff)
  then have "s \<noteq> []" by auto
  with n show "((seqs, drop (lead_len seqs s) s), (seqs, s)) \<in> measure (\<lambda>(seqs, s). length s)"
    by simp
qed

declare drop_leading.simps [simp del]

text \<open>\<^verbatim>\<open>s.strip()\<close>: white space is removed at both ends.\<close>

definition py_strip :: "string \<Rightarrow> string" where
  "py_strip s = rev (drop_leading (map rev whitespace) (rev (drop_leading whitespace s)))"

text \<open>\<^verbatim>\<open>s.strip(chars)\<close>: the characters of \<open>chars\<close> are removed at both ends.\<close>

definition strip_chars :: "string \<Rightarrow> string \<Rightarrow> string" where
  "strip_chars chars s =
     rev (dropWhile (\<lambda>c. c \<in> set chars) (rev (dropWhile (\<lambda>c. c \<in> set chars) s)))"

text \<open>
  \<^verbatim>\<open>s.split()\<close>: the maximal runs of characters that are not white space. \<open>cur\<close> is the
  token being read.
\<close>

fun split_ws_from :: "string \<Rightarrow> string \<Rightarrow> string list" where
  "split_ws_from cur [] = (if cur = [] then [] else [cur])"
| "split_ws_from cur (c # cs) =
     (if lead_len whitespace (c # cs) = 0 then split_ws_from (cur @ [c]) cs
      else (if cur = [] then [] else [cur])
           @ split_ws_from [] (drop (lead_len whitespace (c # cs) - 1) cs))"

definition split_ws :: "string \<Rightarrow> string list" where
  "split_ws s = split_ws_from [] s"

text \<open>
  \<^verbatim>\<open>int(s)\<close> on a \<^verbatim>\<open>str\<close>: white space around the literal is dropped, one sign is
  allowed, the digits may be grouped by single underscores, and more than 4300 digits
  are refused (the interpreter's default limit). Anything else is a \<^verbatim>\<open>ValueError\<close>,
  here \<^term>\<open>None\<close>. Decimal digits outside ASCII, which \<^verbatim>\<open>int\<close> also reads, are not
  modelled: they count as malformed.
\<close>

definition is_digit :: "char \<Rightarrow> bool" where
  "is_digit c = between 48 57 c"

definition digit_val :: "char \<Rightarrow> int" where
  "digit_val c = (of_char c :: int) - 48"

definition digits_value :: "string \<Rightarrow> int" where
  "digits_value ds = foldl (\<lambda>n c. 10 * n + digit_val c) 0 ds"

definition digit_groups_ok :: "string \<Rightarrow> bool" where
  "digit_groups_ok body =
     (list_all (\<lambda>g. g \<noteq> [] \<and> list_all is_digit g) (split_chr CHR ''_'' body)
      \<and> length (filter is_digit body) \<le> 4300)"

definition py_int :: "string \<Rightarrow> int option" where
  "py_int s =
     (let t = py_strip s;
          neg = startswith t ''-'';
          body = (if startswith t ''-'' \<or> startswith t ''+'' then tl t else t)
      in if digit_groups_ok body
         then Some ((if neg then - 1 else 1) * digits_value (filter is_digit body))
         else None)"


section \<open>The world outside the script\<close>

text \<open>
  What \<^verbatim>\<open>subprocess.run(cmd, cwd=cwd, capture_output=True, text=True, check=True)\<close> can
  do: the tool ran and left an exit status, its standard output and its standard error
  (as bytes), or the call raised before the output was available (the program or the
  working directory is missing, an argument holds a NUL character, ...). A non-zero exit
  status is the only case in which \<^verbatim>\<open>run\<close> raises \<^verbatim>\<open>CalledProcessError\<close>.
\<close>

datatype proc_outcome = Exited int string string | Raised py_error

text \<open>
  The script writes to the file system (\<^verbatim>\<open>os.makedirs\<close>, \<^verbatim>\<open>shutil.copy2\<close>, the final
  JSON file). The state is the list of these operations so far, the newest last, and
  every observation the script makes is a function of it, so nothing is assumed about
  where the output lands. Messages printed to the standard streams are not modelled.
\<close>

datatype fs_event = Makedirs string | Copy2 string string | Write_json string

record world =
  git :: "fs_event list \<Rightarrow> string list \<Rightarrow> string option \<Rightarrow> proc_outcome"
  utcoffset :: "int \<Rightarrow> int"
  path_exists :: "fs_event list \<Rightarrow> string \<Rightarrow> bool"
  path_isfile :: "fs_event list \<Rightarrow> string \<Rightarrow> bool"
  read_text :: "fs_event list \<Rightarrow> string \<Rightarrow> py_error + string"
  getsize :: "fs_event list \<Rightarrow> string \<Rightarrow> py_error + nat"
  makedirs :: "fs_event list \<Rightarrow> string \<Rightarrow> py_error option"
  copy2 :: "fs_event list \<Rightarrow> string \<Rightarrow> string \<Rightarrow> py_error option"
  write_json :: "fs_event list \<Rightarrow> string \<Rightarrow> py_error option"
  iteration_order :: "string set \<Rightarrow> string list"
  generated_at :: "fs_event list \<Rightarrow> string"

text \<open>
  \<^term>\<open>utcoffset w t\<close> is the offset in seconds of the machine's local time from UTC at
  the instant \<open>t\<close> (the \<^verbatim>\<open>TZ\<close> setting); \<^term>\<open>iteration_order w S\<close> is the order in which
  a \<^verbatim>\<open>for\<close> loop visits the Python set \<open>S\<close>; \<^term>\<open>generated_at w h\<close> is the text of
  \<^verbatim>\<open>datetime.now(timezone.utc).isoformat().replace('+00:00', 'Z')\<close>.
\<close>

section \<open>Command Runner\<close>

text \<open>
  \<^verbatim>\<open>run_git_command\<close> (lines 19 to 32). The output is decoded before the exit status is
  looked at; only \<^verbatim>\<open>CalledProcessError\<close> is caught.
\<close>

definition run_git_command ::
  "world \<Rightarrow> fs_event list \<Rightarrow> string list \<Rightarrow> string option \<Rightarrow> py_error + string" where
  "run_git_command w h cmd cwd =
     (case git w h cmd cwd of
        Raised e \<Rightarrow> Inl e
      | Exited rc out err \<Rightarrow>
          if \<not> utf8_valid out \<or> \<not> utf8_valid err then Inl UnicodeDecodeError
          else if rc = 0 then Inr (py_strip (universal_newlines out))
          else Inr [])"

section \<open>Commit Log Parser\<close>

record commit_record =
  sha :: string
  author :: string
  email :: string
  date :: string
  message :: string

record commit_with_files = commit_record +
  files :: "string list"

record history_entry = commit_record +
  size_bytes :: nat

definition log_format :: string where
  "log_format = ''%H|%an|%ae|%aI|%s''"

text \<open>The loop of \<^verbatim>\<open>get_all_commits\<close> (lines 49 to 70) over the lines still to read.\<close>

fun get_all_commits_loop ::
  "world \<Rightarrow> fs_event list \<Rightarrow> string \<Rightarrow> string list \<Rightarrow> commit_with_files list
     \<Rightarrow> py_error + commit_with_files list" where
  "get_all_commits_loop w h repo_path [] commits = Inr commits"
| "get_all_commits_loop w h repo_path (line # rest) commits =
     (if line = [] then get_all_commits_loop w h repo_path rest commits
      else (case split_chr_max CHR ''|'' 4 line of
              [sha', author', email', date', message'] \<Rightarrow>
                (case run_git_command w h
                        [''git'', ''diff-tree'', ''--no-commit-id'', ''--name-only'', ''-r'', sha']
                        (Some repo_path) of
                   Inl e \<Rightarrow> Inl e
                 | Inr files_output \<Rightarrow>
                     get_all_commits_loop w h repo_path rest
                       (commits @
                        [\<lparr>sha = sha', commit_record.author = author',
                          commit_record.email = email', commit_record.date = date',
                          message = message',
                          files = filter (\<lambda>f. f \<noteq> []) (split_chr (CHR 0x0A) files_output)\<rparr>]))
            | _ \<Rightarrow> get_all_commits_loop w h repo_path rest commits))"

definition get_all_commits ::
  "world \<Rightarrow> fs_event list \<Rightarrow> string \<Rightarrow> py_error + commit_with_files list" where
  "get_all_commits w h repo_path =
     (case run_git_command w h [''git'', ''log'', ''--pretty=format:'' @ log_format, ''--all'']
             (Some repo_path) of
        Inl e \<Rightarrow> Inl e
      | Inr output \<Rightarrow>
          if output = [] then Inr []
          else get_all_commits_loop w h repo_path (split_chr (CHR 0x0A) output) [])"

text \<open>The loop of \<^verbatim>\<open>get_click_file_commits\<close> (lines 89 to 101).\<close>

fun get_click_file_commits_loop :: "string list \<Rightarrow> commit_record list \<Rightarrow> commit_record list" where
  "get_click_file_commits_loop [] commits = commits"
| "get_click_file_commits_loop (line # rest) commits =
     (if line = [] then get_click_file_commits_loop rest commits
      else (case split_chr_max CHR ''|'' 4 line of
              [sha', author', email', date', message'] \<Rightarrow>
                get_click_file_commits_loop rest
                  (commits @
                   [\<lparr>sha = sha', commit_record.author = author',
                     commit_record.email = email', commit_record.date = date',
                     message = message'\<rparr>])
            | _ \<Rightarrow> get_click_file_commits_loop rest commits))"

definition get_click_file_commits ::
  "world \<Rightarrow> fs_event list \<Rightarrow> string \<Rightarrow> string \<Rightarrow> py_error + commit_record list" where
  "get_click_file_commits w h repo_path click_file_path =
     (case run_git_command w h
             [''git'', ''log'', ''--pretty=format:'' @ log_format, ''--follow'', ''--'',
              click_file_path]
             (Some repo_path) of
        Inl e \<Rightarrow> Inl e
      | Inr output \<Rightarrow>
          if output = [] then Inr []
          else Inr (get_click_file_commits_loop (split_chr (CHR 0x0A) output) []))"


section \<open>Blame Stream Parser\<close>

text \<open>
  \<^verbatim>\<open>datetime.fromtimestamp(t)\<close> with no time zone gives the local civil time of the
  instant \<open>t\<close>, and raises when its year is outside 1 to 9999 (for instants far outside
  that range the interpreter raises \<^verbatim>\<open>OverflowError\<close> or \<^verbatim>\<open>OSError\<close> instead of
  \<^verbatim>\<open>ValueError\<close>; the model has one error for all of them). The date of a day number
  (days since 1970-01-01) is computed in the proleptic Gregorian calendar, in cycles of
  400 years starting on 1 March.
\<close>

definition civil_from_days :: "int \<Rightarrow> int \<times> int \<times> int" where
  "civil_from_days n =
     (let z = n + 719468;
          era = z div 146097;
          doe = z mod 146097;
          yoe = (doe - doe div 1460 + doe div 36524 - doe div 146096) div 365;
          doy = doe - (365 * yoe + yoe div 4 - yoe div 100);
          mp = (5 * doy + 2) div 153;
          d = doy - (153 * mp + 2) div 5 + 1;
          m = (if mp < 10 then mp + 3 else mp - 9);
          y = yoe + era * 400
      in (if m \<le> 2 then y + 1 else y, m, d))"

record datetime =
  year :: int
  month :: int
  day :: int
  hour :: int
  minute :: int
  second :: int

definition civil_time :: "int \<Rightarrow> datetime" where
  "civil_time s =
     (case civil_from_days (s div 86400) of
        (y, m, d) \<Rightarrow>
          \<lparr>year = y, month = m, day = d, hour = (s mod 86400) div 3600,
           minute = (s mod 3600) div 60, second = s mod 60\<rparr>)"

definition fromtimestamp :: "world \<Rightarrow> int \<Rightarrow> py_error + datetime" where
  "fromtimestamp w t =
     (let dt = civil_time (t + utcoffset w t)
      in if year dt < 1 \<or> 9999 < year dt then Inl ValueError else Inr dt)"

definition digit_chr :: "int \<Rightarrow> char" where
  "digit_chr n = ''0123456789'' ! nat (n mod 10)"

definition two_digits :: "int \<Rightarrow> string" where
  "two_digits n = [digit_chr (n div 10), digit_chr n]"

definition four_digits :: "int \<Rightarrow> string" where
  "four_digits n = [digit_chr (n div 1000), digit_chr (n div 100), digit_chr (n div 10), digit_chr n]"

text \<open>\<^verbatim>\<open>dt.isoformat()\<close> of a datetime with no microseconds and no time zone.\<close>

definition isoformat :: "datetime \<Rightarrow> string" where
  "isoformat dt =
     four_digits (year dt) @ ''-'' @ two_digits (month dt) @ ''-'' @ two_digits (day dt)
     @ ''T'' @ two_digits (hour dt) @ '':'' @ two_digits (minute dt) @ '':''
     @ two_digits (second dt)"

record line_attribution =
  lineStart :: nat
  lineEnd :: nat
  commit :: string
  author :: string
  email :: string
  date :: string
  content :: string
  originalLineStart :: int

text \<open>
  The two nested loops of \<^verbatim>\<open>get_blame_history\<close> (lines 128 to 175), each over the lines
  from index \<open>i\<close> on. \<open>blame_outer\<close> is the outer \<^verbatim>\<open>while\<close> at its head, where a header
  line is expected; \<open>blame_inner\<close> is the inner \<^verbatim>\<open>while\<close> over the metadata lines with
  the local variables of the group, followed by the content line and the \<^verbatim>\<open>append\<close>.
\<close>

fun blame_outer ::
      "world \<Rightarrow> string list \<Rightarrow> nat \<Rightarrow> line_attribution list \<Rightarrow> py_error + line_attribution list"
  and blame_inner ::
      "world \<Rightarrow> string list \<Rightarrow> string \<Rightarrow> int \<Rightarrow> string \<Rightarrow> string \<Rightarrow> string \<Rightarrow> nat
         \<Rightarrow> line_attribution list \<Rightarrow> py_error + line_attribution list" where
  "blame_outer w [] current_line blame_info = Inr blame_info"
| "blame_outer w (line # rest) current_line blame_info =
     (if line = [] then blame_outer w rest current_line blame_info
      else if length (split_ws line) < 3 then blame_outer w rest current_line blame_info
      else (case py_int (split_ws line ! 1) of
              None \<Rightarrow> Inl ValueError
            | Some original_line \<Rightarrow>
                blame_inner w rest (split_ws line ! 0) original_line [] [] []
                  current_line blame_info))"
| "blame_inner w [] sha' original_line author' email' date' current_line blame_info =
     Inr (blame_info @
          [\<lparr>lineStart = current_line, lineEnd = current_line, commit = sha',
            author = author', email = email', date = date', content = [],
            originalLineStart = original_line\<rparr>])"
| "blame_inner w (line # rest) sha' original_line author' email' date' current_line blame_info =
     (if startswith line [CHR 0x09] then
        blame_outer w rest (current_line + 1)
          (blame_info @
           [\<lparr>lineStart = current_line, lineEnd = current_line, commit = sha',
             author = author', email = email', date = date', content = drop 1 line,
             originalLineStart = original_line\<rparr>])
      else if startswith line ''author '' then
        blame_inner w rest sha' original_line (drop 7 line) email' date' current_line blame_info
      else if startswith line ''author-mail '' then
        blame_inner w rest sha' original_line author' (strip_chars ''<>'' (drop 12 line)) date'
          current_line blame_info
      else if startswith line ''author-time '' then
        (case py_int (drop 12 line) of
           None \<Rightarrow> Inl ValueError
         | Some timestamp \<Rightarrow>
             (case fromtimestamp w timestamp of
                Inl e \<Rightarrow> Inl e
              | Inr dt \<Rightarrow>
                  blame_inner w rest sha' original_line author' email' (isoformat dt @ ''Z'')
                    current_line blame_info))
      else blame_inner w rest sha' original_line author' email' date' current_line blame_info)"

text \<open>\<^verbatim>\<open>os.path.join(a, b)\<close> of \<^verbatim>\<open>posixpath\<close>.\<close>

definition path_join :: "string \<Rightarrow> string \<Rightarrow> string" where
  "path_join a b =
     (if startswith b ''/'' then b
      else if a = [] \<or> last a = CHR ''/'' then a @ b
      else a @ ''/'' @ b)"

definition get_blame_history ::
  "world \<Rightarrow> fs_event list \<Rightarrow> string \<Rightarrow> string \<Rightarrow> py_error + line_attribution list" where
  "get_blame_history w h repo_path click_file_path =
     (if \<not> path_exists w h (path_join repo_path click_file_path) then Inr []
      else (case run_git_command w h [''git'', ''blame'', ''--line-porcelain'', click_file_path]
                   (Some repo_path) of
              Inl e \<Rightarrow> Inl e
            | Inr output \<Rightarrow>
                if output = [] then Inr []
                else blame_outer w (split_chr (CHR 0x0A) output) 1 []))"

text \<open>\<^verbatim>\<open>get_current_content\<close> (lines 180 to 186).\<close>

definition get_current_content ::
  "world \<Rightarrow> fs_event list \<Rightarrow> string \<Rightarrow> string \<Rightarrow> py_error + string" where
  "get_current_content w h repo_path click_file_path =
     (if path_exists w h (path_join repo_path click_file_path)
      then read_text w h (path_join repo_path click_file_path)
      else Inr [])"


section \<open>Resource Reference Extractor\<close>

text \<open>
  The part of Python's \<^verbatim>\<open>re\<close> that the two patterns of \<^verbatim>\<open>extract_image_references\<close>
  use: single characters and character classes, the greedy quantifiers \<^verbatim>\<open>*\<close> and \<^verbatim>\<open>+\<close>
  on them, and numbered groups. A pattern is a list of items; \<open>Open g\<close> and \<open>Close g\<close>
  stand where group \<open>g\<close> starts and ends.
\<close>

datatype char_class = Lit char | One_of string | None_of string

fun in_class :: "char_class \<Rightarrow> char \<Rightarrow> bool" where
  "in_class (Lit a) c = (c = a)"
| "in_class (One_of cs) c = (c \<in> set cs)"
| "in_class (None_of cs) c = (c \<notin> set cs)"

datatype re_item = One char_class | Star char_class | Plus char_class | Open nat | Close nat

text \<open>
  \<open>re_match p s caps\<close> matches the pattern \<open>p\<close> at the head of \<open>s\<close> and returns what is
  left of \<open>s\<close> after the match with the text of each group. A quantifier first takes
  as many characters as it can and gives them back one by one while the rest of the
  pattern fails (backtracking). An open group is kept with the input at its start.
\<close>

fun re_match ::
  "re_item list \<Rightarrow> string \<Rightarrow> (nat \<times> string) list \<Rightarrow> (string \<times> (nat \<times> string) list) option" where
  "re_match [] s caps = Some (s, caps)"
| "re_match (One k # p) [] caps = None"
| "re_match (One k # p) (c # cs) caps = (if in_class k c then re_match p cs caps else None)"
| "re_match (Star k # p) [] caps = re_match p [] caps"
| "re_match (Star k # p) (c # cs) caps =
     (if in_class k c
      then (case re_match (Star k # p) cs caps of
              Some r \<Rightarrow> Some r
            | None \<Rightarrow> re_match p (c # cs) caps)
      else re_match p (c # cs) caps)"
| "re_match (Plus k # p) [] caps = None"
| "re_match (Plus k # p) (c # cs) caps =
     (if in_class k c then re_match (Star k # p) cs caps else None)"
| "re_match (Open g # p) s caps = re_match p s ((g, s) # caps)"
| "re_match (Close g # p) s caps =
     re_match p s
       (map (\<lambda>(g', start). if g' = g then (g', take (length start - length s) start)
                            else (g', start)) caps)"

text \<open>
  \<^verbatim>\<open>re.finditer\<close>: the matches from left to right, each search starting where the
  previous match ended (one character further after an empty match).
\<close>

function finditer :: "re_item list \<Rightarrow> string \<Rightarrow> (nat \<times> string) list list" where
  "finditer p s =
     (if s = [] then (case re_match p [] [] of None \<Rightarrow> [] | Some (rest, caps) \<Rightarrow> [caps])
      else (case re_match p s [] of
              None \<Rightarrow> finditer p (tl s)
            | Some (rest, caps) \<Rightarrow>
                caps # (if length rest < length s then finditer p rest else finditer p (tl s))))"
  by pat_completeness auto
termination
  by (relation "measure (\<lambda>(p, s). length s)") auto

declare finditer.simps [simp del]

text \<open>\<^verbatim>\<open>match.group(g)\<close>.\<close>

definition group :: "(nat \<times> string) list \<Rightarrow> nat \<Rightarrow> string" where
  "group caps g = (case map_of caps g of None \<Rightarrow> [] | Some t \<Rightarrow> t)"

text \<open>\<^verbatim>\<open>r'!\[([^\]]*)\]\(([^)]+)\)'\<close>\<close>

definition markdown_pattern :: "re_item list" where
  "markdown_pattern =
     [One (Lit CHR ''!''), One (Lit CHR ''[''), Open 1, Star (None_of '']''), Close 1,
      One (Lit CHR '']''), One (Lit CHR ''(''), Open 2, Plus (None_of '')''), Close 2,
      One (Lit CHR '')'')]"

text \<open>\<^verbatim>\<open>r'<img[^>]+src=["\']([^"\']+)["\']'\<close>\<close>

definition html_pattern :: "re_item list" where
  "html_pattern =
     [One (Lit CHR ''<''), One (Lit CHR ''i''), One (Lit CHR ''m''), One (Lit CHR ''g''),
      Plus (None_of ''>''),
      One (Lit CHR ''s''), One (Lit CHR ''r''), One (Lit CHR ''c''), One (Lit CHR ''=''),
      One (One_of [CHR 0x22, CHR 0x27]), Open 1, Plus (None_of [CHR 0x22, CHR 0x27]), Close 1,
      One (One_of [CHR 0x22, CHR 0x27])]"

text \<open>\<^verbatim>\<open>image_path.startswith(('http://', 'https://', '//'))\<close>\<close>

definition external_url :: "string \<Rightarrow> bool" where
  "external_url image_path =
     (startswith image_path ''http://'' \<or> startswith image_path ''https://''
      \<or> startswith image_path ''//'')"

definition extract_image_references :: "string \<Rightarrow> string set" where
  "extract_image_references markdown_content =
     fold (\<lambda>m images. if \<not> external_url (group m 1) then insert (group m 1) images else images)
       (finditer html_pattern markdown_content)
       (fold (\<lambda>m images. if \<not> external_url (group m 2) then insert (group m 2) images
                          else images)
          (finditer markdown_pattern markdown_content) {})"

section \<open>Resource History Correlator\<close>

text \<open>The loop of \<^verbatim>\<open>get_image_history\<close> (lines 231 to 252).\<close>

fun get_image_history_loop ::
  "world \<Rightarrow> fs_event list \<Rightarrow> string \<Rightarrow> string \<Rightarrow> string list \<Rightarrow> history_entry list
     \<Rightarrow> py_error + history_entry list" where
  "get_image_history_loop w h repo_path image_path [] history = Inr history"
| "get_image_history_loop w h repo_path image_path (line # rest) history =
     (if line = [] then get_image_history_loop w h repo_path image_path rest history
      else (case split_chr_max CHR ''|'' 4 line of
              [sha', author', email', date', message'] \<Rightarrow>
                (case run_git_command w h [''git'', ''show'', sha' @ '':'' @ image_path]
                        (Some repo_path) of
                   Inl e \<Rightarrow> Inl e
                 | Inr size_output \<Rightarrow>
                     get_image_history_loop w h repo_path image_path rest
                       (history @
                        [\<lparr>sha = sha', commit_record.author = author',
                          commit_record.email = email', commit_record.date = date',
                          message = message',
                          size_bytes = (if size_output \<noteq> [] then length size_output else 0)\<rparr>]))
            | _ \<Rightarrow> get_image_history_loop w h repo_path image_path rest history))"

definition get_image_history ::
  "world \<Rightarrow> fs_event list \<Rightarrow> string \<Rightarrow> string \<Rightarrow> py_error + history_entry list" where
  "get_image_history w h repo_path image_path =
     (if \<not> path_exists w h (path_join repo_path image_path) then Inr []
      else (case run_git_command w h
                   [''git'', ''log'', ''--pretty=format:'' @ log_format, ''--follow'', ''--'',
                    image_path]
                   (Some repo_path) of
              Inl e \<Rightarrow> Inl e
            | Inr output \<Rightarrow>
                if output = [] then Inr []
                else get_image_history_loop w h repo_path image_path
                       (split_chr (CHR 0x0A) output) []))"


section \<open>Asset Materializer\<close>

text \<open>\<^verbatim>\<open>os.path.basename\<close>, \<^verbatim>\<open>os.path.dirname\<close> and \<^verbatim>\<open>os.path.normpath\<close> of \<^verbatim>\<open>posixpath\<close>.\<close>

definition basename :: "string \<Rightarrow> string" where
  "basename p = rev (takeWhile (\<lambda>c. c \<noteq> CHR ''/'') (rev p))"

definition dirname :: "string \<Rightarrow> string" where
  "dirname p =
     (let head = take (length p - length (basename p)) p
      in if head \<noteq> [] \<and> head \<noteq> replicate (length head) CHR ''/''
         then rev (dropWhile (\<lambda>c. c = CHR ''/'') (rev head))
         else head)"

fun join_with :: "string \<Rightarrow> string list \<Rightarrow> string" where
  "join_with sep [] = []"
| "join_with sep [x] = x"
| "join_with sep (x # y # ys) = x @ sep @ join_with sep (y # ys)"

definition normpath :: "string \<Rightarrow> string" where
  "normpath path =
     (if path = [] then ''.''
      else
        (let initial_slashes =
               (if startswith path ''/''
                then (if startswith path ''//'' \<and> \<not> startswith path ''///'' then 2 else 1)
                else (0::nat));
             comps =
               fold (\<lambda>comp new_comps.
                       if comp = [] \<or> comp = ''.'' then new_comps
                       else if comp \<noteq> ''..'' \<or> (initial_slashes = 0 \<and> new_comps = [])
                               \<or> (new_comps \<noteq> [] \<and> last new_comps = ''..'')
                       then new_comps @ [comp]
                       else if new_comps \<noteq> [] then butlast new_comps
                       else new_comps)
                 (split_chr CHR ''/'' path) [];
             p = replicate initial_slashes CHR ''/'' @ join_with ''/'' comps
         in if p = [] then ''.'' else p))"

record copied_asset =
  source :: string
  destination :: string
  fullPath :: string
  currentSize :: nat
  versions :: "history_entry list"
  versionCount :: nat

text \<open>
  Lines 278 to 291: the directory to create (if any), \<^verbatim>\<open>dest_path\<close> and \<^verbatim>\<open>web_path\<close>
  of a reference.
\<close>

definition asset_destination :: "string \<Rightarrow> string \<Rightarrow> string \<Rightarrow> string option \<times> string \<times> string" where
  "asset_destination assets_dir project_path image_ref =
     (let project_name = basename project_path;
          filename = basename image_ref;
          rel_dir = dirname image_ref
      in if rel_dir \<noteq> [] \<and> rel_dir \<noteq> ''.''
         then (let dest_subdir = path_join (path_join assets_dir project_name) rel_dir
               in (Some dest_subdir, path_join dest_subdir filename,
                   map (\<lambda>c. if c = CHR 0x5C then CHR ''/'' else c)
                     (path_join (path_join project_name rel_dir) filename)))
         else (None, path_join assets_dir (project_name @ ''_'' @ filename),
               project_name @ ''_'' @ filename))"

text \<open>Lines 294 to 300: the path of a reference in the repository whose history is read.\<close>

definition image_git_path :: "string \<Rightarrow> string \<Rightarrow> string" where
  "image_git_path project_path image_ref =
     (if startswith project_path ''external-projects'' then image_ref
      else path_join project_path image_ref)"

text \<open>
  The loop of \<^verbatim>\<open>copy_images_to_assets\<close> (lines 269 to 323) over the references still to
  visit. An exception of \<^verbatim>\<open>os.makedirs\<close> or of \<^verbatim>\<open>get_image_history\<close> leaves the function;
  one of \<^verbatim>\<open>shutil.copy2\<close> or \<^verbatim>\<open>os.path.getsize\<close> is caught and the reference is left out.
\<close>

fun copy_images_loop ::
  "world \<Rightarrow> string \<Rightarrow> string \<Rightarrow> string \<Rightarrow> string \<Rightarrow> string list \<Rightarrow> fs_event list
     \<Rightarrow> copied_asset list \<Rightarrow> py_error + copied_asset list \<times> fs_event list" where
  "copy_images_loop w project_dir project_path project_git_root assets_dir [] h copied_images =
     Inr (copied_images, h)"
| "copy_images_loop w project_dir project_path project_git_root assets_dir (image_ref # rest) h
     copied_images =
     (let source_path = normpath (path_join project_dir image_ref)
      in if path_exists w h source_path \<and> path_isfile w h source_path then
           (case asset_destination assets_dir project_path image_ref of
              (dest_subdir, dest_path, web_path) \<Rightarrow>
                (case (case dest_subdir of
                         None \<Rightarrow> Inr h
                       | Some d \<Rightarrow>
                           (case makedirs w h d of
                              Some e \<Rightarrow> Inl e
                            | None \<Rightarrow> Inr (h @ [Makedirs d]))) of
                   Inl e \<Rightarrow> Inl e
                 | Inr h1 \<Rightarrow>
                     (case get_image_history w h1 project_git_root
                             (image_git_path project_path image_ref) of
                        Inl e \<Rightarrow> Inl e
                      | Inr image_history \<Rightarrow>
                          (case copy2 w h1 source_path dest_path of
                             Some e \<Rightarrow>
                               copy_images_loop w project_dir project_path project_git_root
                                 assets_dir rest (h1 @ [Copy2 source_path dest_path]) copied_images
                           | None \<Rightarrow>
                               (case getsize w (h1 @ [Copy2 source_path dest_path]) source_path of
                                  Inl e \<Rightarrow>
                                    copy_images_loop w project_dir project_path project_git_root
                                      assets_dir rest (h1 @ [Copy2 source_path dest_path])
                                      copied_images
                                | Inr current_size \<Rightarrow>
                                    copy_images_loop w project_dir project_path project_git_root
                                      assets_dir rest (h1 @ [Copy2 source_path dest_path])
                                      (copied_images @
                                       [\<lparr>source = image_ref, destination = web_path,
                                         fullPath = dest_path, currentSize = current_size,
                                         versions = image_history,
                                         versionCount = length image_history\<rparr>]))))))
         else copy_images_loop w project_dir project_path project_git_root assets_dir rest h
                copied_images)"

definition copy_images_to_assets ::
  "world \<Rightarrow> fs_event list \<Rightarrow> string \<Rightarrow> string \<Rightarrow> string \<Rightarrow> string set \<Rightarrow> string
     \<Rightarrow> py_error + copied_asset list \<times> fs_event list" where
  "copy_images_to_assets w h repo_path project_path project_git_root image_refs assets_dir =
     (if image_refs = {} then Inr ([], h)
      else (case makedirs w h assets_dir of
              Some e \<Rightarrow> Inl e
            | None \<Rightarrow>
                copy_images_loop w (path_join repo_path project_path) project_path
                  project_git_root assets_dir (iteration_order w image_refs)
                  (h @ [Makedirs assets_dir]) []))"

section \<open>Snapshot Assembler\<close>

record click_file =
  path :: string
  commits :: "commit_record list"
  blameHistory :: "line_attribution list"
  currentContent :: string
  images :: "copied_asset list"

record project_record =
  name :: string
  path :: string
  commits :: "commit_with_files list"
  clickFile :: click_file

record metadata =
  generatedAt :: string
  version :: string

record snapshot =
  projects :: "project_record list"
  metadata :: metadata

text \<open>The body of the loop of \<^verbatim>\<open>generate_temporal_data\<close> (lines 382 to 432) for one project.\<close>

definition process_project ::
  "world \<Rightarrow> fs_event list \<Rightarrow> string \<Rightarrow> string \<Rightarrow> string
     \<Rightarrow> py_error + project_record \<times> fs_event list" where
  "process_project w h repo_path assets_dir project_path =
     (let project_name = basename project_path;
          click_file_path = path_join project_path ''click.md'';
          is_external = startswith project_path ''external-projects'';
          project_git_root = (if is_external then path_join repo_path project_path else repo_path);
          click_file_rel_path = (if is_external then ''click.md'' else click_file_path)
      in case get_all_commits w h project_git_root of
           Inl e \<Rightarrow> Inl e
         | Inr all_commits \<Rightarrow>
         (case get_click_file_commits w h project_git_root click_file_rel_path of
           Inl e \<Rightarrow> Inl e
         | Inr click_commits \<Rightarrow>
         (case get_blame_history w h project_git_root click_file_rel_path of
           Inl e \<Rightarrow> Inl e
         | Inr blame_history \<Rightarrow>
         (case get_current_content w h repo_path click_file_path of
           Inl e \<Rightarrow> Inl e
         | Inr current_content \<Rightarrow>
         (case copy_images_to_assets w h repo_path project_path project_git_root
                 (extract_image_references current_content) assets_dir of
           Inl e \<Rightarrow> Inl e
         | Inr (copied_images, h') \<Rightarrow>
             Inr (\<lparr>name = project_name, project_record.path = project_path,
                   project_record.commits = all_commits,
                   clickFile =
                     \<lparr>click_file.path = click_file_path, click_file.commits = click_commits,
                      blameHistory = blame_history, currentContent = current_content,
                      images = copied_images\<rparr>\<rparr>, h'))))))"

text \<open>The loop itself: the first exception of a project leaves the loop and the function.\<close>

fun generate_temporal_data_loop ::
  "world \<Rightarrow> string \<Rightarrow> string \<Rightarrow> string list \<Rightarrow> fs_event list \<Rightarrow> project_record list
     \<Rightarrow> py_error + project_record list \<times> fs_event list" where
  "generate_temporal_data_loop w repo_path assets_dir [] h projects_data = Inr (projects_data, h)"
| "generate_temporal_data_loop w repo_path assets_dir (project_path # rest) h projects_data =
     (case process_project w h repo_path assets_dir project_path of
        Inl e \<Rightarrow> Inl e
      | Inr (project_data, h') \<Rightarrow>
          generate_temporal_data_loop w repo_path assets_dir rest h'
            (projects_data @ [project_data]))"

text \<open>
  \<^verbatim>\<open>generate_temporal_data\<close> (lines 364 to 451) from the list \<open>project_paths\<close> that
  \<^verbatim>\<open>find_projects\<close> returned. The result is the structure written to the output file.
\<close>

definition generate_temporal_data ::
  "world \<Rightarrow> fs_event list \<Rightarrow> string \<Rightarrow> string \<Rightarrow> string list
     \<Rightarrow> py_error + snapshot \<times> fs_event list" where
  "generate_temporal_data w h repo_path output_file project_paths =
     (case generate_temporal_data_loop w repo_path (path_join (dirname output_file) ''assets'')
             project_paths h [] of
        Inl e \<Rightarrow> Inl e
      | Inr (projects_data, h1) \<Rightarrow>
          (let data = \<lparr>projects = projects_data,
                       metadata = \<lparr>generatedAt = generated_at w h1, version = ''1.0.0''\<rparr>\<rparr>;
               output_path = path_join repo_path output_file
           in case makedirs w h1 (dirname output_path) of
                Some e \<Rightarrow> Inl e
              | None \<Rightarrow>
                  (case write_json w (h1 @ [Makedirs (dirname output_path)]) output_path of
                     Some e \<Rightarrow> Inl e
                   | None \<Rightarrow>
                       Inr (data, h1 @ [Makedirs (dirname output_path), Write_json output_path]))))"


section \<open>A small corpus\<close>

text \<open>
  A repository at \<^verbatim>\<open>/repo\<close> with one project, \<^verbatim>\<open>projects/demo\<close>, whose document has three
  lines and embeds \<^verbatim>\<open>logo.svg\<close>. The history has two commits. The attribution stream has
  one group per line of the document; the second group carries no metadata, and a blank
  line and a line of two words stand between the second and the third group. In any
  other working directory \<^verbatim>\<open>git\<close> fails with status 128.
\<close>

definition demo_log :: string where
  "demo_log =
     ''a1b2c3d|Ann Lee|ann@example.org|2024-03-01T10:00:00+00:00|add logo | tidy page\<newline>''
     @ ''9f8e7d6|Bob Roy|bob@example.org|2024-02-01T09:30:00+00:00|first page\<newline>''"

definition demo_blame :: string where
  "demo_blame =
     ''9f8e7d6 1 1 2\<newline>author Bob Roy\<newline>author-mail <bob@example.org>\<newline>''
     @ ''author-time 1706779800\<newline>author-tz +0000\<newline>summary first page\<newline>''
     @ ''filename projects/demo/click.md\<newline>'' @ [CHR 0x09] @ ''# Demo\<newline>''
     @ ''9f8e7d6 2 2\<newline>'' @ [CHR 0x09] @ ''\<newline>''
     @ ''\<newline>-- cut\<newline>''
     @ ''a1b2c3d 3 3 1\<newline>author Ann Lee\<newline>author-mail <ann@example.org>\<newline>''
     @ ''author-time 1709287200\<newline>author-tz +0000\<newline>''
     @ ''summary add logo | tidy page\<newline>''
     @ ''filename projects/demo/click.md\<newline>'' @ [CHR 0x09] @ ''![logo](logo.svg)\<newline>''"

definition demo_blob :: string where
  "demo_blob = ''<svg/>\<newline>''"

definition demo_git :: "string list \<Rightarrow> string option \<Rightarrow> proc_outcome" where
  "demo_git cmd cwd =
     (if cwd \<noteq> Some ''/repo'' then Exited 128 [] ''fatal: not a git repository''
      else if cmd ! 1 = ''log'' then Exited 0 demo_log []
      else if cmd ! 1 = ''diff-tree''
        then Exited 0 ''projects/demo/click.md\<newline>projects/demo/logo.svg\<newline>'' []
      else if cmd ! 1 = ''blame'' then Exited 0 demo_blame []
      else if cmd ! 1 = ''show'' then Exited 0 demo_blob []
      else Exited 1 [] ''git: not a git command'')"

definition demo_world :: world where
  "demo_world =
     \<lparr>git = (\<lambda>h. demo_git), utcoffset = (\<lambda>t. 0), path_exists = (\<lambda>h p. True),
      path_isfile = (\<lambda>h p. True),
      read_text = (\<lambda>h p. Inr ''# Demo\<newline>\<newline>![logo](logo.svg)\<newline>''),
      getsize = (\<lambda>h p. Inr 7), makedirs = (\<lambda>h p. None), copy2 = (\<lambda>h s d. None),
      write_json = (\<lambda>h p. None),
      iteration_order = (\<lambda>S. filter (\<lambda>p. p \<in> S) [''logo.svg'']),
      generated_at = (\<lambda>h. ''2024-03-02T00:00:00Z'')\<rparr>"

text \<open>The same corpus on a machine whose local time is one hour ahead of UTC.\<close>

definition cet_world :: world where
  "cet_world = demo_world\<lparr>utcoffset := (\<lambda>t. 3600)\<rparr>"

text \<open>The same corpus on a machine where \<^verbatim>\<open>git\<close> is not installed (\<^verbatim>\<open>FileNotFoundError\<close>).\<close>

definition no_git_world :: world where
  "no_git_world = demo_world\<lparr>git := (\<lambda>h cmd cwd. Raised OSError)\<rparr>"

text \<open>The same corpus after \<^verbatim>\<open>logo.svg\<close> and everything else was removed from the disk.\<close>

definition bare_world :: world where
  "bare_world = demo_world\<lparr>path_exists := (\<lambda>h p. False)\<rparr>"

text \<open>
  The same corpus with a second project, \<^verbatim>\<open>projects/notes\<close>, whose one-line document
  holds a carriage return in the middle of the line.
\<close>

definition notes_blame :: string where
  "notes_blame =
     ''3c4d5e6 1 1 1\<newline>author Cy Dee\<newline>author-mail <cy@example.org>\<newline>''
     @ ''author-time 1709290800\<newline>author-tz +0000\<newline>summary add notes\<newline>''
     @ ''filename projects/notes/click.md\<newline>'' @ [CHR 0x09] @ ''first half''
     @ [CHR 0x0D] @ ''second half of the line\<newline>''"

definition notes_world :: world where
  "notes_world =
     demo_world\<lparr>git := (\<lambda>h cmd cwd.
        if cmd ! 1 = ''blame'' \<and> cmd ! 3 = ''projects/notes/click.md''
        then Exited 0 notes_blame []
        else demo_git cmd cwd)\<rparr>"

text \<open>The two texts of the specification's examples for the reference extractor.\<close>

definition spec_example :: string where
  "spec_example =
     ''![x](a.png) and <img src='' @ [CHR 0x27] @ ''b.png'' @ [CHR 0x27]
     @ ''/> and ![y](http://ex.com/c.png)''"

definition twice_example :: string where
  "twice_example =
     ''![x](a.png) and <img src='' @ [CHR 0x22] @ ''a.png'' @ [CHR 0x22] @ ''>''"

section \<open>Command Runner: results\<close>

text \<open>
  C7, as amended. When the tool was started and its output is valid UTF-8, the Command
  Runner raises nothing: it returns the trimmed standard output on exit status 0 and the
  empty string on any other status.
\<close>

theorem run_git_command_started:
  "git w h cmd cwd = Exited rc out err \<Longrightarrow> utf8_valid out \<Longrightarrow> utf8_valid err \<Longrightarrow>
   run_git_command w h cmd cwd = Inr (if rc = 0 then py_strip (universal_newlines out) else [])"
  by (simp add: run_git_command_def)

theorem run_git_command_started_witness:
  "run_git_command demo_world [] [''git'', ''show'', ''a1b2c3d:projects/demo/logo.svg'']
     (Some ''/repo'') = Inr ''<svg/>''
   \<and> run_git_command demo_world [] [''git'', ''log''] (Some ''/tmp'') = Inr []"
proof -
  have g: "git demo_world [] [''git'', ''show'', ''a1b2c3d:projects/demo/logo.svg'']
             (Some ''/repo'') = Exited 0 demo_blob []"
    by (simp add: demo_world_def demo_git_def)
  have g': "git demo_world [] [''git'', ''log''] (Some ''/tmp'')
              = Exited 128 [] ''fatal: not a git repository''"
    by (simp add: demo_world_def demo_git_def)
  have v: "utf8_valid demo_blob" "utf8_valid []" "utf8_valid ''fatal: not a git repository''"
    by code_simp+
  have s: "py_strip (universal_newlines demo_blob) = ''<svg/>''"
    by code_simp
  from run_git_command_started [OF g v(1) v(2)] run_git_command_started [OF g' v(2) v(3)] s
  show ?thesis by simp
qed

text \<open>
  C7 as stated fails: where \<^verbatim>\<open>git\<close> cannot be started, \<^verbatim>\<open>subprocess.run\<close> raises an
  \<^verbatim>\<open>OSError\<close>, which \<^verbatim>\<open>run_git_command\<close> does not catch.
\<close>

theorem run_git_command_raises:
  "run_git_command no_git_world [] [''git'', ''log''] (Some ''/repo'') = Inl OSError"
  by (simp add: run_git_command_def no_git_world_def)

section \<open>Resource History Correlator: results\<close>

text \<open>
  C9. For a resource path that does not exist under the repository root,
  \<^verbatim>\<open>get_image_history\<close> returns the empty history and raises nothing.
\<close>

theorem get_image_history_missing:
  "\<not> path_exists w h (path_join repo_path image_path) \<Longrightarrow>
   get_image_history w h repo_path image_path = Inr []"
  by (simp add: get_image_history_def)

theorem get_image_history_missing_witness:
  "\<not> path_exists bare_world [] (path_join ''/repo'' ''projects/demo/logo.svg'')
   \<and> get_image_history bare_world [] ''/repo'' ''projects/demo/logo.svg'' = Inr []"
proof -
  have a: "\<not> path_exists bare_world [] (path_join ''/repo'' ''projects/demo/logo.svg'')"
    by (simp add: bare_world_def)
  from a get_image_history_missing [OF a] show ?thesis by simp
qed

text \<open>
  C6 fails on the code. The blob of \<^verbatim>\<open>logo.svg\<close> is 7 bytes long at both revisions, and
  the size recorded for each is 6: the content is fetched through the Command Runner,
  which trims it.
\<close>

theorem get_image_history_trimmed_size:
  "get_image_history demo_world [] ''/repo'' ''projects/demo/logo.svg'' = Inr
     [\<lparr>sha = ''a1b2c3d'', commit_record.author = ''Ann Lee'',
       commit_record.email = ''ann@example.org'',
       commit_record.date = ''2024-03-01T10:00:00+00:00'',
       message = ''add logo | tidy page'', size_bytes = 6\<rparr>,
      \<lparr>sha = ''9f8e7d6'', commit_record.author = ''Bob Roy'',
       commit_record.email = ''bob@example.org'',
       commit_record.date = ''2024-02-01T09:30:00+00:00'',
       message = ''first page'', size_bytes = 6\<rparr>]
   \<and> git demo_world [] [''git'', ''show'', ''a1b2c3d:projects/demo/logo.svg''] (Some ''/repo'')
       = Exited 0 demo_blob []
   \<and> git demo_world [] [''git'', ''show'', ''9f8e7d6:projects/demo/logo.svg''] (Some ''/repo'')
       = Exited 0 demo_blob []
   \<and> length demo_blob = 7"
  by code_simp

section \<open>Asset Materializer: results\<close>

lemma copy_images_loop_counts:
  "list_all (\<lambda>a. versionCount a = length (versions a)) copied \<Longrightarrow>
   copy_images_loop w pd pp pgr ad refs h copied = Inr (res, h') \<Longrightarrow>
   list_all (\<lambda>a. versionCount a = length (versions a)) res"
proof (induction refs arbitrary: h copied)
  case Nil
  then show ?case by simp
next
  case (Cons r refs)
  from Cons.prems(2) consider
      "copy_images_loop w pd pp pgr ad refs h copied = Inr (res, h')"
    | h1 where "copy_images_loop w pd pp pgr ad refs h1 copied = Inr (res, h')"
    | h1 a where "copy_images_loop w pd pp pgr ad refs h1 (copied @ [a]) = Inr (res, h')"
        and "versionCount a = length (versions a)"
    by (simp add: Let_def
        split: if_split_asm prod.split_asm sum.split_asm option.split_asm)
  then show ?case
  proof cases
    case 1
    with Cons.IH Cons.prems(1) show ?thesis by blast
  next
    case 2
    with Cons.IH Cons.prems(1) show ?thesis by blast
  next
    case 3
    from Cons.prems(1) 3(2)
    have "list_all (\<lambda>a. versionCount a = length (versions a)) (copied @ [a])" by simp
    with Cons.IH 3(1) show ?thesis by blast
  qed
qed

text \<open>
  C10. In every record that \<^verbatim>\<open>copy_images_to_assets\<close> returns, \<^verbatim>\<open>versionCount\<close> is the
  length of \<^verbatim>\<open>versions\<close>.
\<close>

theorem copy_images_to_assets_versionCount:
  "copy_images_to_assets w h repo_path project_path project_git_root image_refs assets_dir
     = Inr (assets, h') \<Longrightarrow>
   \<forall>a\<in>set assets. versionCount a = length (versions a)"
proof -
  assume r: "copy_images_to_assets w h repo_path project_path project_git_root image_refs
               assets_dir = Inr (assets, h')"
  show ?thesis
  proof (cases "image_refs = {}")
    case True
    with r show ?thesis by (simp add: copy_images_to_assets_def)
  next
    case False
    with r have "copy_images_loop w (path_join repo_path project_path) project_path
                   project_git_root assets_dir (iteration_order w image_refs)
                   (h @ [Makedirs assets_dir]) [] = Inr (assets, h')"
      by (simp add: copy_images_to_assets_def split: option.splits)
    with copy_images_loop_counts [where copied = "[]"]
    show ?thesis by (simp add: list_all_iff)
  qed
qed

theorem copy_images_to_assets_versionCount_witness:
  "copy_images_to_assets demo_world [] ''/repo'' ''projects/demo'' ''/repo'' {''logo.svg''}
     ''dist/assets''
   = Inr ([\<lparr>source = ''logo.svg'', destination = ''demo_logo.svg'',
            fullPath = ''dist/assets/demo_logo.svg'', currentSize = 7,
            versions =
              [\<lparr>sha = ''a1b2c3d'', commit_record.author = ''Ann Lee'',
                commit_record.email = ''ann@example.org'',
                commit_record.date = ''2024-03-01T10:00:00+00:00'',
                message = ''add logo | tidy page'', size_bytes = 6\<rparr>,
               \<lparr>sha = ''9f8e7d6'', commit_record.author = ''Bob Roy'',
                commit_record.email = ''bob@example.org'',
                commit_record.date = ''2024-02-01T09:30:00+00:00'',
                message = ''first page'', size_bytes = 6\<rparr>],
            versionCount = 2\<rparr>],
          [Makedirs ''dist/assets'',
           Copy2 ''/repo/projects/demo/logo.svg'' ''dist/assets/demo_logo.svg''])
   \<and> versionCount
         (hd (fst (projr (copy_images_to_assets demo_world [] ''/repo'' ''projects/demo''
                            ''/repo'' {''logo.svg''} ''dist/assets''))))
       = length (versions
         (hd (fst (projr (copy_images_to_assets demo_world [] ''/repo'' ''projects/demo''
                            ''/repo'' {''logo.svg''} ''dist/assets'')))))"
proof -
  have e: "copy_images_to_assets demo_world [] ''/repo'' ''projects/demo'' ''/repo''
             {''logo.svg''} ''dist/assets''
           = Inr ([\<lparr>source = ''logo.svg'', destination = ''demo_logo.svg'',
            fullPath = ''dist/assets/demo_logo.svg'', currentSize = 7,
            versions =
              [\<lparr>sha = ''a1b2c3d'', commit_record.author = ''Ann Lee'',
                commit_record.email = ''ann@example.org'',
                commit_record.date = ''2024-03-01T10:00:00+00:00'',
                message = ''add logo | tidy page'', size_bytes = 6\<rparr>,
               \<lparr>sha = ''9f8e7d6'', commit_record.author = ''Bob Roy'',
                commit_record.email = ''bob@example.org'',
                commit_record.date = ''2024-02-01T09:30:00+00:00'',
                message = ''first page'', size_bytes = 6\<rparr>],
            versionCount = 2\<rparr>],
          [Makedirs ''dist/assets'',
           Copy2 ''/repo/projects/demo/logo.svg'' ''dist/assets/demo_logo.svg''])"
    by code_simp
  from copy_images_to_assets_versionCount [OF e] e show ?thesis by simp
qed

section \<open>Blame Stream Parser: the time stamp\<close>

text \<open>
  C2 fails on the code. On a machine one hour ahead of UTC the line attributed to the
  instant 1706779800 (2024-02-01T09:30:00 UTC) is dated \<^verbatim>\<open>2024-02-01T10:30:00Z\<close>: the
  local civil time with the suffix of UTC.
\<close>

theorem get_blame_history_local_time:
  "get_blame_history cet_world [] ''/repo'' ''projects/demo/click.md'' = Inr
     [\<lparr>lineStart = 1, lineEnd = 1, commit = ''9f8e7d6'', author = ''Bob Roy'',
       email = ''bob@example.org'', date = ''2024-02-01T10:30:00Z'', content = ''# Demo'',
       originalLineStart = 1\<rparr>,
      \<lparr>lineStart = 2, lineEnd = 2, commit = ''9f8e7d6'', author = [], email = [], date = [],
       content = [], originalLineStart = 2\<rparr>,
      \<lparr>lineStart = 3, lineEnd = 3, commit = ''a1b2c3d'', author = ''Ann Lee'',
       email = ''ann@example.org'', date = ''2024-03-01T11:00:00Z'',
       content = ''![logo](logo.svg)'', originalLineStart = 3\<rparr>]
   \<and> isoformat (civil_time 1706779800) @ ''Z'' = ''2024-02-01T09:30:00Z''
   \<and> isoformat (civil_time 1709287200) @ ''Z'' = ''2024-03-01T10:00:00Z''"
  by code_simp

end
